theory Spec2Isabelle
  imports Complex_Main
begin

section \<open>JavaScript values\<close>

text \<open>
  The extension's numbers are JavaScript numbers. They are modelled as reals (the rounding
  of doubles is not modelled), with the three special values a computation can produce kept
  apart. A property that is missing from an object reads as \<open>undefined\<close>: such a field is
  \<open>None\<close>, and every comparison with it is false, as in JavaScript.
\<close>

datatype jsnum = NaN | NegInf | Num real | PosInf

fun js_lt :: "jsnum \<Rightarrow> jsnum \<Rightarrow> bool" where
  "js_lt (Num x) (Num y) = (x < y)"
| "js_lt NegInf (Num y) = True"
| "js_lt NegInf PosInf = True"
| "js_lt (Num x) PosInf = True"
| "js_lt _ _ = False"

definition js_gt :: "jsnum \<Rightarrow> jsnum \<Rightarrow> bool" where
  "js_gt a b = js_lt b a"

text \<open>\<open>!x\<close> on a field that holds a boolean or is missing.\<close>

fun truthy :: "bool option \<Rightarrow> bool" where
  "truthy None = False"
| "truthy (Some b) = b"

section \<open>Settings and the persistent store\<close>

record settings =
  enabled :: "bool option"
  autoStart :: "bool option"
  theme :: "string option"
  proximityEnabled :: "bool option"
  sensitivity :: "real option"
  proximityPeriodSeconds :: "real option"
  breaksEnabled :: "bool option"
  breakIntervalMinutes :: "real option"
  breakDurationSeconds :: "real option"
  snoozeMinutes :: "real option"

definition DEFAULT_SETTINGS :: settings where
  "DEFAULT_SETTINGS =
     \<lparr> enabled = Some True, autoStart = Some True, theme = Some ''system'',
       proximityEnabled = Some True, sensitivity = Some 1.5,
       proximityPeriodSeconds = Some 30, breaksEnabled = Some True,
       breakIntervalMinutes = Some 20, breakDurationSeconds = Some 20,
       snoozeMinutes = Some 5 \<rparr>"

record calibration =
  baselineFaceSize :: real
  timestamp :: real

text \<open>\<open>chrome.storage.local\<close>: the three keys the extension uses. Reads and writes are
  modelled as succeeding; the \<open>catch\<close> branches that only log are not reached.\<close>

record storage =
  stActiveMinutes :: "real option"
  stSettings :: "settings option"
  stCalibrationData :: "calibration option"

text \<open>\<open>const { settings = DEFAULT_SETTINGS } = await chrome.storage.local.get("settings")\<close>\<close>

definition getSettings :: "storage \<Rightarrow> settings" where
  "getSettings st = (case stSettings st of None \<Rightarrow> DEFAULT_SETTINGS | Some x \<Rightarrow> x)"

section \<open>The background coordinator\<close>

text \<open>
  The background script exists in two copies whose tick handler and message cases are the
  same text; the second also answers the sampler's storage requests, and it is the one
  modelled here. Its module variables \<open>activeMinutes\<close>, \<open>isBreakInProgress\<close> and
  \<open>snoozedUntilMs\<close> are fields of the coordinator state, next to the store, the two alarms
  the script creates and whether the offscreen document is open. Each handler is modelled
  as one step: what it reads from outside (the clock, the idle state, the open tabs) is an
  argument, and \<open>sendResponse\<close> is the response returned.
\<close>

datatype idleState = Active | Idle | Locked

record alarm =
  delayInMinutes :: real
  periodInMinutes :: real

type_synonym tab = nat

datatype message =
    RequestStatus
  | BreakCompleted
  | BreakSnooze
  | SettingsUpdate settings
  | ProximityWarning
  | ProximityReset
  | StorageGetCalibration
  | StorageSetCalibration calibration
  | StorageGetSettings
  | StorageRemoveCalibration
  | BreakReminder
  | ProximitySample
  | BreakStart real

record bg =
  activeMinutes :: real
  isBreakInProgress :: bool
  snoozedUntilMs :: jsnum
  store :: storage
  breakTickAlarm :: "alarm option"
  proximityAlarm :: "alarm option"
  offscreenOpen :: bool

text \<open>\<open>broadcastMessage\<close>: one \<open>chrome.tabs.sendMessage\<close> per open tab; a tab without a
  content script rejects, which is ignored.\<close>

definition broadcastMessage :: "tab list \<Rightarrow> message \<Rightarrow> (tab \<times> message) list" where
  "broadcastMessage tabs m = map (\<lambda>t. (t, m)) tabs"

definition setActiveMinutes :: "real \<Rightarrow> bg \<Rightarrow> bg" where
  "setActiveMinutes v s =
     s\<lparr> activeMinutes := v, store := (store s)\<lparr> stActiveMinutes := Some v \<rparr> \<rparr>"

text \<open>The guard that opens \<open>handleBreakTick\<close> and \<open>ensureBreakTickAlarm\<close>:
  \<open>!settings.enabled || !settings.breaksEnabled\<close> ("Break system disabled").\<close>

definition breakSystemDisabled :: "settings \<Rightarrow> bool" where
  "breakSystemDisabled st = (\<not> truthy (enabled st) \<or> \<not> truthy (breaksEnabled st))"

text \<open>\<open>activeMinutes >= settings.breakIntervalMinutes\<close>\<close>

definition intervalReached :: "real \<Rightarrow> settings \<Rightarrow> bool" where
  "intervalReached v st =
     (case breakIntervalMinutes st of None \<Rightarrow> False | Some iv \<Rightarrow> iv \<le> v)"

text \<open>\<open>handleBreakTick\<close>. \<open>now\<close> is \<open>Date.now()\<close>, \<open>state\<close> the answer of
  \<open>chrome.idle.queryState(60, ...)\<close>, \<open>tabs\<close> the answer of \<open>chrome.tabs.query({})\<close>.
  The result is the new coordinator state and the messages delivered to tabs.\<close>

definition handleBreakTick ::
  "real \<Rightarrow> idleState \<Rightarrow> tab list \<Rightarrow> bg \<Rightarrow> bg \<times> (tab \<times> message) list" where
  "handleBreakTick now state tabs s =
     (let st = getSettings (store s) in
      if breakSystemDisabled st then (s, [])
      else if js_lt (Num now) (snoozedUntilMs s) then (s, [])
      else if state = Active \<and> \<not> isBreakInProgress s then
        (let s1 = setActiveMinutes (activeMinutes s + 1) s in
         if intervalReached (activeMinutes s1) st
         then (setActiveMinutes 0 s1, broadcastMessage tabs BreakReminder)
         else (s1, []))
      else if state \<noteq> Active then (setActiveMinutes 0 s, [])
      else (s, []))"

definition ensureBreakTickAlarm :: "bg \<Rightarrow> bg" where
  "ensureBreakTickAlarm s =
     (if breakSystemDisabled (getSettings (store s)) then s
      else s\<lparr> breakTickAlarm := Some \<lparr> delayInMinutes = 1, periodInMinutes = 1 \<rparr> \<rparr>)"

text \<open>\<open>ensureProximitySampling\<close>: the period is \<open>settings.proximityPeriodSeconds / 60\<close>;
  with the field missing the period is not a number, \<open>chrome.alarms.create\<close> rejects and
  the error is logged.\<close>

definition ensureProximitySampling :: "bg \<Rightarrow> bg" where
  "ensureProximitySampling s =
     (let st = getSettings (store s) in
      if \<not> truthy (enabled st) \<or> \<not> truthy (proximityEnabled st) then s
      else (case proximityPeriodSeconds st of
              None \<Rightarrow> s
            | Some p \<Rightarrow>
                s\<lparr> proximityAlarm := Some \<lparr> delayInMinutes = 0.5, periodInMinutes = p / 60 \<rparr> \<rparr>))"

definition ensureOffscreenDocument :: "bg \<Rightarrow> bg" where
  "ensureOffscreenDocument s = (if offscreenOpen s then s else s\<lparr> offscreenOpen := True \<rparr>)"

text \<open>\<open>forceRecreateOffscreenDocument\<close>: \<open>closeDocument\<close> rejects when no document is
  open, and the \<open>catch\<close> then skips the creation.\<close>

definition forceRecreateOffscreenDocument :: "bg \<Rightarrow> bg" where
  "forceRecreateOffscreenDocument s =
     (if offscreenOpen s then (s\<lparr> offscreenOpen := False \<rparr>)\<lparr> offscreenOpen := True \<rparr> else s)"

record status =
  respActiveMinutes :: real
  respMinutesRemaining :: jsnum
  respIsBreakInProgress :: bool
  respSettings :: settings

datatype response =
    StatusResponse status
  | Success
  | CalibrationResponse "calibration option"
  | SettingsResponse settings
  | NoResponse

text \<open>\<open>Math.max(settings.breakIntervalMinutes - activeMinutes, 0)\<close>\<close>

definition minutesRemaining :: "settings \<Rightarrow> real \<Rightarrow> jsnum" where
  "minutesRemaining st am =
     (case breakIntervalMinutes st of None \<Rightarrow> NaN | Some iv \<Rightarrow> Num (max (iv - am) 0))"

text \<open>\<open>Date.now() + (settings.snoozeMinutes * 60 * 1000)\<close>\<close>

definition snoozeDeadline :: "real \<Rightarrow> settings \<Rightarrow> jsnum" where
  "snoozeDeadline now st =
     (case snoozeMinutes st of None \<Rightarrow> NaN | Some m \<Rightarrow> Num (now + m * 60 * 1000))"

text \<open>The \<open>eyeguard.settings.update\<close> case of the message listener.\<close>

definition settingsUpdate :: "settings \<Rightarrow> bg \<Rightarrow> bg" where
  "settingsUpdate payload s =
     (let s1 = s\<lparr> store := (store s)\<lparr> stSettings := Some payload \<rparr> \<rparr>;
          s2 = s1\<lparr> breakTickAlarm := None, proximityAlarm := None \<rparr>;
          s3 = ensureBreakTickAlarm s2;
          s4 = ensureProximitySampling s3
      in if truthy (proximityEnabled payload)
         then ensureProximitySampling (ensureOffscreenDocument s4)
         else s4\<lparr> proximityAlarm := None \<rparr>)"

text \<open>The message listener of the background script (the variant that also proxies the
  store for the sampler). It answers with a response and may deliver messages to tabs.\<close>

fun onMessage ::
  "real \<Rightarrow> tab list \<Rightarrow> message \<Rightarrow> bg \<Rightarrow> bg \<times> response \<times> (tab \<times> message) list" where
  "onMessage now tabs RequestStatus s =
     (let st = getSettings (store s) in
      (s, StatusResponse \<lparr> respActiveMinutes = activeMinutes s,
                           respMinutesRemaining = minutesRemaining st (activeMinutes s),
                           respIsBreakInProgress = isBreakInProgress s,
                           respSettings = st \<rparr>, []))"
| "onMessage now tabs BreakCompleted s =
     (setActiveMinutes 0 (s\<lparr> isBreakInProgress := False \<rparr>), Success, [])"
| "onMessage now tabs BreakSnooze s =
     (s\<lparr> snoozedUntilMs := snoozeDeadline now (getSettings (store s)) \<rparr>, Success, [])"
| "onMessage now tabs (SettingsUpdate payload) s = (settingsUpdate payload s, Success, [])"
| "onMessage now tabs ProximityWarning s = (s, Success, broadcastMessage tabs ProximityWarning)"
| "onMessage now tabs ProximityReset s = (forceRecreateOffscreenDocument s, Success, [])"
| "onMessage now tabs StorageGetCalibration s =
     (s, CalibrationResponse (stCalibrationData (store s)), [])"
| "onMessage now tabs (StorageSetCalibration c) s =
     (s\<lparr> store := (store s)\<lparr> stCalibrationData := Some c \<rparr> \<rparr>, Success, [])"
| "onMessage now tabs StorageGetSettings s = (s, SettingsResponse (getSettings (store s)), [])"
| "onMessage now tabs StorageRemoveCalibration s =
     (s\<lparr> store := (store s)\<lparr> stCalibrationData := None \<rparr> \<rparr>, Success, [])"
| "onMessage now tabs BreakReminder s = (s, NoResponse, [])"
| "onMessage now tabs ProximitySample s = (s, NoResponse, [])"
| "onMessage now tabs (BreakStart d) s = (s, NoResponse, [])"

section \<open>The proximity sampler\<close>

text \<open>\<open>x / y\<close> on two numbers: a division by zero gives an infinity or \<open>NaN\<close>.\<close>

definition js_div :: "real \<Rightarrow> real \<Rightarrow> jsnum" where
  "js_div x y =
     (if y \<noteq> 0 then Num (x / y) else if 0 < x then PosInf else if x < 0 then NegInf else NaN)"

text \<open>\<open>k * x\<close> for a number \<open>k\<close>.\<close>

fun js_times :: "real \<Rightarrow> jsnum \<Rightarrow> jsnum" where
  "js_times k (Num v) = Num (k * v)"
| "js_times k NaN = NaN"
| "js_times k PosInf = (if 0 < k then PosInf else if k < 0 then NegInf else NaN)"
| "js_times k NegInf = (if 0 < k then NegInf else if k < 0 then PosInf else NaN)"

definition SAMPLE_INTERVAL :: real where
  "SAMPLE_INTERVAL = 2000"

definition CALIBRATION_SAMPLES :: nat where
  "CALIBRATION_SAMPLES = 5"

definition PROXIMITY_THRESHOLD :: real where
  "PROXIMITY_THRESHOLD = 0.7"

text \<open>\<open>data[i]\<close> on the frame buffer (one number per channel, four channels per pixel):
  \<open>undefined\<close> beyond the end.\<close>

definition channel :: "int list \<Rightarrow> nat \<Rightarrow> int option" where
  "channel data i = (if i < length data then Some (data ! i) else None)"

text \<open>The test in the loop of \<open>estimateFaceSize\<close>, as \<open>offscreen.js\<close> has it. A comparison
  with \<open>undefined\<close> is false, so a missing channel fails the test.\<close>

fun skinTone :: "int option \<Rightarrow> int option \<Rightarrow> int option \<Rightarrow> bool" where
  "skinTone (Some r) (Some g) (Some b) =
     (r > 60 \<and> g > 20 \<and> b > 10 \<and> r > g \<and> r > b \<and> \<bar>r - g\<bar> > 5)"
| "skinTone _ _ _ = False"

text \<open>The same test as the second sampler file (the one that reads the store directly)
  has it.\<close>

fun skinToneDirect :: "int option \<Rightarrow> int option \<Rightarrow> int option \<Rightarrow> bool" where
  "skinToneDirect (Some r) (Some g) (Some b) =
     (r > 95 \<and> g > 40 \<and> b > 20 \<and> r > g \<and> r > b \<and> \<bar>r - g\<bar> > 15)"
| "skinToneDirect _ _ _ = False"

text \<open>\<open>for (let i = 0; i < data.length; i += 16)\<close>: the loop of both files, with the
  test as a parameter.\<close>

function estimateLoop ::
  "(int option \<Rightarrow> int option \<Rightarrow> int option \<Rightarrow> bool) \<Rightarrow> int list \<Rightarrow> nat \<Rightarrow> nat \<Rightarrow> nat \<Rightarrow> nat \<times> nat"
  where
  "estimateLoop test data i skinPixels totalPixels =
     (if i < length data
      then estimateLoop test data (i + 16)
             (if test (channel data i) (channel data (i + 1)) (channel data (i + 2))
              then skinPixels + 1 else skinPixels)
             (totalPixels + 1)
      else (skinPixels, totalPixels))"
  by pat_completeness auto
termination
  by (relation "measure (\<lambda>(test, data, i, skinPixels, totalPixels). length data - i)") auto

definition estimateFaceSize :: "int list \<Rightarrow> jsnum" where
  "estimateFaceSize data =
     (case estimateLoop skinTone data 0 0 0 of
        (skinPixels, totalPixels) \<Rightarrow> js_div (real skinPixels) (real totalPixels))"

definition estimateFaceSizeDirect :: "int list \<Rightarrow> jsnum" where
  "estimateFaceSizeDirect data =
     (case estimateLoop skinToneDirect data 0 0 0 of
        (skinPixels, totalPixels) \<Rightarrow> js_div (real skinPixels) (real totalPixels))"

text \<open>The spec's words for the face-size estimate, to compare the loops with: the skin
  rule on the three channels of a pixel, and the pixels of the strided subsample (the pixel
  at every 16th buffer position, that is every 4th pixel). \<open>skinRuleDirect\<close> is the rule
  with the bounds of the second sampler file.\<close>

definition skinRule :: "int \<times> int \<times> int \<Rightarrow> bool" where
  "skinRule p = (case p of (r, g, b) \<Rightarrow>
     r > 60 \<and> g > 20 \<and> b > 10 \<and> r > g \<and> r > b \<and> \<bar>r - g\<bar> > 5)"

definition skinRuleDirect :: "int \<times> int \<times> int \<Rightarrow> bool" where
  "skinRuleDirect p = (case p of (r, g, b) \<Rightarrow>
     r > 95 \<and> g > 40 \<and> b > 20 \<and> r > g \<and> r > b \<and> \<bar>r - g\<bar> > 15)"

definition stridedPixels :: "int list \<Rightarrow> (int \<times> int \<times> int) list" where
  "stridedPixels data =
     map (\<lambda>k. (data ! (16 * k), data ! (16 * k + 1), data ! (16 * k + 2)))
       [0 ..< (length data + 15) div 16]"

text \<open>How many of the loop positions from the \<open>k\<close>-th on pass the test.\<close>

definition passes ::
  "(int option \<Rightarrow> int option \<Rightarrow> int option \<Rightarrow> bool) \<Rightarrow> int list \<Rightarrow> nat \<Rightarrow> nat" where
  "passes test data k =
     length (filter (\<lambda>j. test (channel data (16 * j)) (channel data (16 * j + 1))
                            (channel data (16 * j + 2)))
               [k ..< (length data + 15) div 16])"

record sampler =
  initialized :: bool
  isProcessing :: bool
  calibrationData :: "calibration option"
  lastSampleTime :: real
  calibrationSamples :: "real list option"

text \<open>\<open>performCalibration\<close>. \<open>clock\<close> is the \<open>Date.now()\<close> read for the timestamp. The
  accumulator \<open>window.calibrationSamples\<close> is created on first use and is not emptied when
  the baseline is set. The message is what \<open>saveCalibrationData\<close> sends.\<close>

definition performCalibration :: "real \<Rightarrow> real \<Rightarrow> sampler \<Rightarrow> sampler \<times> message list" where
  "performCalibration faceSize clock s =
     (let samples = (case calibrationSamples s of None \<Rightarrow> [] | Some xs \<Rightarrow> xs) @ [faceSize];
          s1 = s\<lparr> calibrationSamples := Some samples \<rparr>
      in if length samples < CALIBRATION_SAMPLES then (s1, [])
         else (let avgFaceSize = foldl (+) 0 samples / real (length samples);
                   c = \<lparr> baselineFaceSize = avgFaceSize, timestamp = clock \<rparr>
               in (s1\<lparr> calibrationData := Some c \<rparr>, [StorageSetCalibration c])))"

text \<open>\<open>getSensitivity\<close> of \<open>offscreen.js\<close>: the answer of the background to
  \<open>eyeguard.storage.get.settings\<close>, or nothing within one second. A sensitivity that is
  missing or 0 is falsy.\<close>

definition getSensitivity :: "settings option \<Rightarrow> real" where
  "getSensitivity reply =
     (case reply of
        None \<Rightarrow> 1.5
      | Some st \<Rightarrow> (case sensitivity st of
                     None \<Rightarrow> 1.5
                   | Some v \<Rightarrow> if v = 0 then 1.5 else v))"

text \<open>\<open>checkProximity\<close> of \<open>offscreen.js\<close>, after \<open>await getSensitivity()\<close>.\<close>

definition checkProximity :: "real \<Rightarrow> real \<Rightarrow> sampler \<Rightarrow> bool" where
  "checkProximity sens faceSize s =
     (case calibrationData s of
        None \<Rightarrow> False
      | Some c \<Rightarrow>
          (let proximityRatio = js_div faceSize (baselineFaceSize c);
               threshold = Num (PROXIMITY_THRESHOLD * sens)
           in js_gt proximityRatio threshold))"

text \<open>In the second sampler file \<open>checkProximity\<close> is not \<open>async\<close> and calls the \<open>async\<close>
  \<open>getSensitivity\<close> without \<open>await\<close>: \<open>sensitivity\<close> is the promise, not the number it
  resolves to, and a promise converts to \<open>NaN\<close> in the product.\<close>

datatype jsval = Number jsnum | PromiseOf real

fun valueToNumber :: "jsval \<Rightarrow> jsnum" where
  "valueToNumber (Number n) = n"
| "valueToNumber (PromiseOf v) = NaN"

definition getSensitivityDirect :: "settings option \<Rightarrow> jsval" where
  "getSensitivityDirect stored =
     PromiseOf (case stored of
                  None \<Rightarrow> 1.5
                | Some st \<Rightarrow> (case sensitivity st of
                               None \<Rightarrow> 1.5
                             | Some v \<Rightarrow> if v = 0 then 1.5 else v))"

definition checkProximityDirect :: "settings option \<Rightarrow> real \<Rightarrow> sampler \<Rightarrow> bool" where
  "checkProximityDirect stored faceSize s =
     (case calibrationData s of
        None \<Rightarrow> False
      | Some c \<Rightarrow>
          (let sens = getSensitivityDirect stored;
               proximityRatio = js_div faceSize (baselineFaceSize c);
               threshold = js_times PROXIMITY_THRESHOLD (valueToNumber sens)
           in js_gt proximityRatio threshold))"

record video =
  readyState :: nat
  videoWidth :: nat
  videoHeight :: nat
  imageData :: "int list"

text \<open>What one call of \<open>performSample\<close> reads from outside: \<open>Date.now()\<close> on entry, the
  \<open>Date.now()\<close> of a calibration, the settings reply for the sensitivity, and the video
  with the frame that \<open>getImageData\<close> returns.\<close>

record sampleInput =
  atTime :: real
  clock :: real
  settingsReply :: "settings option"
  frame :: video

text \<open>\<open>performSample\<close> of \<open>offscreen.js\<close>. The result is the sampler after the \<open>finally\<close>
  block and the messages sent to the background. The status line of the page is not
  modelled.\<close>

definition performSample :: "sampleInput \<Rightarrow> sampler \<Rightarrow> sampler \<times> message list" where
  "performSample i s =
     (if \<not> initialized s \<or> isProcessing s then (s, [])
      else if atTime i - lastSampleTime s < SAMPLE_INTERVAL then (s, [])
      else
        (let s1 = s\<lparr> lastSampleTime := atTime i, isProcessing := True \<rparr>;
             r = (if readyState (frame i) < 2 then (s1, [])
                  else if videoWidth (frame i) = 0 \<or> videoHeight (frame i) = 0 then (s1, [])
                  else (let faceSize = estimateFaceSize (imageData (frame i)) in
                        if js_gt faceSize (Num 0) then
                          (case faceSize of
                             Num f \<Rightarrow>
                               if calibrationData s1 = None
                               then performCalibration f (clock i) s1
                               else if checkProximity (getSensitivity (settingsReply i)) f s1
                                    then (s1, [ProximityWarning])
                                    else (s1, [])
                           | _ \<Rightarrow> (s1, []))
                        else (s1, [])))
         in ((fst r)\<lparr> isProcessing := False \<rparr>, snd r)))"

text \<open>\<open>performSample\<close> of the second sampler file: no check of the video, the stricter
  skin test, and \<open>checkProximity\<close> without \<open>await\<close>. \<open>settingsReply\<close> is here what the store
  holds under \<open>settings\<close>.\<close>

definition performSampleDirect :: "sampleInput \<Rightarrow> sampler \<Rightarrow> sampler \<times> message list" where
  "performSampleDirect i s =
     (if \<not> initialized s \<or> isProcessing s then (s, [])
      else if atTime i - lastSampleTime s < SAMPLE_INTERVAL then (s, [])
      else
        (let s1 = s\<lparr> lastSampleTime := atTime i, isProcessing := True \<rparr>;
             faceSize = estimateFaceSizeDirect (imageData (frame i));
             r = (if js_gt faceSize (Num 0) then
                    (case faceSize of
                       Num f \<Rightarrow>
                         if calibrationData s1 = None
                         then performCalibration f (clock i) s1
                         else if checkProximityDirect (settingsReply i) f s1
                              then (s1, [ProximityWarning])
                              else (s1, [])
                     | _ \<Rightarrow> (s1, []))
                  else (s1, []))
         in ((fst r)\<lparr> isProcessing := False \<rparr>, snd r)))"

text \<open>The \<open>eyeguard.proximity.reset\<close> case of the sampler's listener.\<close>

definition samplerReset :: "sampler \<Rightarrow> sampler \<times> message list" where
  "samplerReset s =
     (s\<lparr> calibrationData := None, calibrationSamples := Some [] \<rparr>, [StorageRemoveCalibration])"

text \<open>\<open>loadCalibrationData\<close>: a stored calibration is taken when its timestamp is truthy
  and it is younger than 24 hours.\<close>

definition loadCalibrationData :: "real \<Rightarrow> calibration option \<Rightarrow> sampler \<Rightarrow> sampler" where
  "loadCalibrationData now reply s =
     (case reply of
        None \<Rightarrow> s
      | Some c \<Rightarrow>
          if timestamp c \<noteq> 0 \<and> now - timestamp c < 24 * 60 * 60 * 1000
          then s\<lparr> calibrationData := Some c \<rparr> else s)"

text \<open>The accumulator as a list, and what the calibration claim calls a successful
  sample with value \<open>a\<close>: the video is ready and the estimate of its frame is the positive
  number \<open>a\<close>.\<close>

definition accumulated :: "sampler \<Rightarrow> real list" where
  "accumulated s = (case calibrationSamples s of None \<Rightarrow> [] | Some xs \<Rightarrow> xs)"

definition successfulSample :: "sampleInput \<Rightarrow> real \<Rightarrow> bool" where
  "successfulSample i a =
     (2 \<le> readyState (frame i) \<and> videoWidth (frame i) \<noteq> 0 \<and> videoHeight (frame i) \<noteq> 0
      \<and> estimateFaceSize (imageData (frame i)) = Num a \<and> 0 < a)"

text \<open>Several samples in a row.\<close>

fun performSamples :: "sampleInput list \<Rightarrow> sampler \<Rightarrow> sampler \<times> message list" where
  "performSamples [] s = (s, [])"
| "performSamples (i # is) s =
     (case performSample i s of
        (s1, out1) \<Rightarrow> (case performSamples is s1 of (s2, out2) \<Rightarrow> (s2, out1 @ out2)))"

section \<open>The options page and the popup\<close>

text \<open>\<open>DEFAULTS\<close> of \<open>options.js\<close>: the same values as \<open>DEFAULT_SETTINGS\<close> of the
  background script.\<close>

definition DEFAULTS :: settings where
  "DEFAULTS =
     \<lparr> enabled = Some True, autoStart = Some True, theme = Some ''system'',
       proximityEnabled = Some True, sensitivity = Some 1.5,
       proximityPeriodSeconds = Some 30, breaksEnabled = Some True,
       breakIntervalMinutes = Some 20, breakDurationSeconds = Some 20,
       snoozeMinutes = Some 5 \<rparr>"

record rule =
  rule_min :: real
  rule_max :: real

definition sensitivityRule :: rule where
  "sensitivityRule = \<lparr> rule_min = 1.1, rule_max = 2.0 \<rparr>"

definition proximityPeriodSecondsRule :: rule where
  "proximityPeriodSecondsRule = \<lparr> rule_min = 10, rule_max = 300 \<rparr>"

definition breakIntervalMinutesRule :: rule where
  "breakIntervalMinutesRule = \<lparr> rule_min = 5, rule_max = 120 \<rparr>"

definition breakDurationSecondsRule :: rule where
  "breakDurationSecondsRule = \<lparr> rule_min = 10, rule_max = 300 \<rparr>"

definition snoozeMinutesRule :: rule where
  "snoozeMinutesRule = \<lparr> rule_min = 1, rule_max = 60 \<rparr>"

text \<open>\<open>value < rule.min || value > rule.max\<close>; false for a missing value.\<close>

definition outside :: "real option \<Rightarrow> rule \<Rightarrow> bool" where
  "outside x r = (case x of None \<Rightarrow> False | Some v \<Rightarrow> v < rule_min r \<or> v > rule_max r)"

text \<open>\<open>validateSettings\<close>: the messages of the violated rules, in the order of the checks.
  The texts are the template strings with the bounds filled in.\<close>

definition validateSettings :: "settings \<Rightarrow> string list" where
  "validateSettings st =
     (if outside (sensitivity st) sensitivityRule
      then [''Sensitivity must be between 1.1 and 2''] else [])
     @ (if outside (proximityPeriodSeconds st) proximityPeriodSecondsRule
        then [''Proximity sampling must be between 10 and 300 seconds''] else [])
     @ (if outside (breakIntervalMinutes st) breakIntervalMinutesRule
        then [''Break interval must be between 5 and 120 minutes''] else [])
     @ (if outside (breakDurationSeconds st) breakDurationSecondsRule
        then [''Break duration must be between 10 and 300 seconds''] else [])
     @ (if outside (snoozeMinutes st) snoozeMinutesRule
        then [''Snooze time must be between 1 and 60 minutes''] else [])"

text \<open>The form of the options page, and \<open>readForm\<close>: every field of the record is
  present.\<close>

record form =
  fEnabled :: bool
  fAutoStart :: bool
  fTheme :: string
  fProximityEnabled :: bool
  fSensitivity :: real
  fProximityPeriodSeconds :: real
  fBreaksEnabled :: bool
  fBreakIntervalMinutes :: real
  fBreakDurationSeconds :: real
  fSnoozeMinutes :: real

definition readForm :: "form \<Rightarrow> settings" where
  "readForm f =
     \<lparr> enabled = Some (fEnabled f), autoStart = Some (fAutoStart f), theme = Some (fTheme f),
       proximityEnabled = Some (fProximityEnabled f), sensitivity = Some (fSensitivity f),
       proximityPeriodSeconds = Some (fProximityPeriodSeconds f),
       breaksEnabled = Some (fBreaksEnabled f),
       breakIntervalMinutes = Some (fBreakIntervalMinutes f),
       breakDurationSeconds = Some (fBreakDurationSeconds f),
       snoozeMinutes = Some (fSnoozeMinutes f) \<rparr>"

fun join :: "string list \<Rightarrow> string" where
  "join [] = []"
| "join [x] = x"
| "join (x # y # ys) = x @ '', '' @ join (y # ys)"

datatype notification = Notification string string

text \<open>\<open>saveSettings\<close>: the store after the call, the messages sent to the background, and
  the notification shown.\<close>

definition saveSettings :: "form \<Rightarrow> storage \<Rightarrow> storage \<times> message list \<times> notification" where
  "saveSettings f st =
     (let payload = readForm f; errors = validateSettings payload in
      if length errors > 0
      then (st, [], Notification (''Validation errors: '' @ join errors) ''error'')
      else (st\<lparr> stSettings := Some payload \<rparr>, [SettingsUpdate payload],
            Notification ''Settings saved successfully!'' ''success''))"

text \<open>The two toggles of the popup. The payload is an object with the one property.\<close>

definition noSettings :: settings where
  "noSettings =
     \<lparr> enabled = None, autoStart = None, theme = None, proximityEnabled = None,
       sensitivity = None, proximityPeriodSeconds = None, breaksEnabled = None,
       breakIntervalMinutes = None, breakDurationSeconds = None, snoozeMinutes = None \<rparr>"

definition toggleProximity :: "bool \<Rightarrow> message" where
  "toggleProximity checked = SettingsUpdate (noSettings\<lparr> proximityEnabled := Some checked \<rparr>)"

definition toggleBreaks :: "bool \<Rightarrow> message" where
  "toggleBreaks checked = SettingsUpdate (noSettings\<lparr> breaksEnabled := Some checked \<rparr>)"

text \<open>A settings record is complete when no property is missing.\<close>

definition complete :: "settings \<Rightarrow> bool" where
  "complete st =
     (enabled st \<noteq> None \<and> autoStart st \<noteq> None \<and> theme st \<noteq> None
      \<and> proximityEnabled st \<noteq> None \<and> sensitivity st \<noteq> None
      \<and> proximityPeriodSeconds st \<noteq> None \<and> breaksEnabled st \<noteq> None
      \<and> breakIntervalMinutes st \<noteq> None \<and> breakDurationSeconds st \<noteq> None
      \<and> snoozeMinutes st \<noteq> None)"

section \<open>Concrete inputs\<close>

text \<open>A state used to run the theorems on concrete inputs: a fresh coordinator whose store
  holds the default settings, with a chosen count of active minutes.\<close>

definition freshStore :: storage where
  "freshStore = \<lparr> stActiveMinutes = Some 0, stSettings = Some DEFAULT_SETTINGS,
                  stCalibrationData = None \<rparr>"

definition bgAt :: "real \<Rightarrow> bg" where
  "bgAt m = \<lparr> activeMinutes = m, isBreakInProgress = False, snoozedUntilMs = Num 0,
             store = freshStore, breakTickAlarm = None, proximityAlarm = None,
             offscreenOpen = True \<rparr>"

text \<open>The form that holds the defaults but a sensitivity of 2.5.\<close>

definition formSensitivity25 :: form where
  "formSensitivity25 =
     \<lparr> fEnabled = True, fAutoStart = True, fTheme = ''system'', fProximityEnabled = True,
       fSensitivity = 2.5, fProximityPeriodSeconds = 30, fBreaksEnabled = True,
       fBreakIntervalMinutes = 20, fBreakDurationSeconds = 20, fSnoozeMinutes = 5 \<rparr>"

text \<open>A sampler that is initialised and has no calibration, one that has a baseline of
  0.2, a video of one pixel, a video of five pixels of which the loop examines the first
  (skin) and the fifth (not skin), and a sample request at a given time.\<close>

definition samplerReady :: sampler where
  "samplerReady = \<lparr> initialized = True, isProcessing = False, calibrationData = None,
                     lastSampleTime = 0, calibrationSamples = None \<rparr>"

definition samplerCalibrated :: sampler where
  "samplerCalibrated = \<lparr> initialized = True, isProcessing = False,
       calibrationData = Some \<lparr> baselineFaceSize = 0.2, timestamp = 1000 \<rparr>,
       lastSampleTime = 0, calibrationSamples = None \<rparr>"

definition onePixel :: "int list \<Rightarrow> video" where
  "onePixel d = \<lparr> readyState = 4, videoWidth = 1, videoHeight = 1, imageData = d \<rparr>"

definition farFrame :: video where
  "farFrame = \<lparr> readyState = 4, videoWidth = 5, videoHeight = 1,
       imageData = [200, 100, 50, 255, 0, 0, 0, 255, 0, 0, 0, 255, 0, 0, 0, 255,
                    0, 0, 0, 255] \<rparr>"

definition sampleAt :: "real \<Rightarrow> video \<Rightarrow> sampleInput" where
  "sampleAt t v = \<lparr> atTime = t, clock = t + 1, settingsReply = Some DEFAULT_SETTINGS, frame = v \<rparr>"

section \<open>Break ticks\<close>

lemma getSettings_bgAt: "getSettings (store (bgAt m)) = DEFAULT_SETTINGS"
  by (simp add: getSettings_def bgAt_def freshStore_def)

lemma DEFAULT_enabled: "\<not> breakSystemDisabled DEFAULT_SETTINGS"
  by (simp add: breakSystemDisabled_def DEFAULT_SETTINGS_def)

lemma DEFAULT_interval: "breakIntervalMinutes DEFAULT_SETTINGS = Some 20"
  by (simp add: DEFAULT_SETTINGS_def)

text \<open>While the break system is disabled a tick changes nothing and sends nothing.\<close>

lemma tick_when_break_system_disabled:
  "breakSystemDisabled (getSettings (store s)) \<Longrightarrow> handleBreakTick now state tabs s = (s, [])"
  by (simp add: handleBreakTick_def Let_def)

text \<open>
  Claim C1. In a state where the break system is enabled (the tick's guard
  \<open>!settings.enabled || !settings.breaksEnabled\<close> does not fire), the snooze window has
  passed, the user is active and no break is in progress, a tick that raises the active
  minutes to a value reaching or exceeding \<open>breakIntervalMinutes\<close> leaves the counter at 0,
  in memory and in the store, and emits one broadcast of the break reminder: every tab
  receives it once, and nothing else is sent.
\<close>

theorem C1_tick_reaching_interval_resets_and_reminds:
  assumes "\<not> breakSystemDisabled (getSettings (store s))"
    and "\<not> js_lt (Num now) (snoozedUntilMs s)"
    and "\<not> isBreakInProgress s"
    and "breakIntervalMinutes (getSettings (store s)) = Some iv"
    and "iv \<le> activeMinutes s + 1"
  shows "fst (handleBreakTick now Active tabs s) = setActiveMinutes 0 s
       \<and> activeMinutes (fst (handleBreakTick now Active tabs s)) = 0
       \<and> stActiveMinutes (store (fst (handleBreakTick now Active tabs s))) = Some 0
       \<and> snd (handleBreakTick now Active tabs s) = map (\<lambda>t. (t, BreakReminder)) tabs
       \<and> length (snd (handleBreakTick now Active tabs s)) = length tabs"
  using assms
  by (simp add: handleBreakTick_def Let_def intervalReached_def setActiveMinutes_def
      broadcastMessage_def)

theorem C1_scenario_19_of_20:
  "activeMinutes (fst (handleBreakTick 1000 Active [1, 2, 3] (bgAt 19))) = 0
   \<and> stActiveMinutes (store (fst (handleBreakTick 1000 Active [1, 2, 3] (bgAt 19)))) = Some 0
   \<and> snd (handleBreakTick 1000 Active [1, 2, 3] (bgAt 19))
       = [(1, BreakReminder), (2, BreakReminder), (3, BreakReminder)]"
proof -
  have a: "\<not> breakSystemDisabled (getSettings (store (bgAt 19)))"
    by (simp add: getSettings_bgAt DEFAULT_enabled)
  have b: "\<not> js_lt (Num 1000) (snoozedUntilMs (bgAt 19))"
    by (simp add: bgAt_def)
  have c: "\<not> isBreakInProgress (bgAt 19)"
    by (simp add: bgAt_def)
  have d: "breakIntervalMinutes (getSettings (store (bgAt 19))) = Some 20"
    by (simp add: getSettings_bgAt DEFAULT_interval)
  have e: "20 \<le> activeMinutes (bgAt 19) + 1"
    by (simp add: bgAt_def)
  from C1_tick_reaching_interval_resets_and_reminds [OF a b c d e, of "[1, 2, 3]"]
  show ?thesis by (simp add: setActiveMinutes_def)
qed

text \<open>
  Claim C2, as written, promises the increment for every count below the interval. At the
  last minute before the interval (19 of 20) the tick does not leave 20 behind: it resets
  the counter to 0 and sends the reminder.
\<close>

theorem C2_last_minute_is_reset:
  "activeMinutes (bgAt 19) < 20
   \<and> breakIntervalMinutes (getSettings (store (bgAt 19))) = Some 20
   \<and> \<not> breakSystemDisabled (getSettings (store (bgAt 19)))
   \<and> \<not> isBreakInProgress (bgAt 19)
   \<and> \<not> js_lt (Num 1000) (snoozedUntilMs (bgAt 19))
   \<and> activeMinutes (fst (handleBreakTick 1000 Active [1] (bgAt 19))) = 0
   \<and> activeMinutes (fst (handleBreakTick 1000 Active [1] (bgAt 19)))
       \<noteq> activeMinutes (bgAt 19) + 1"
  by (simp add: handleBreakTick_def Let_def intervalReached_def setActiveMinutes_def
      getSettings_bgAt DEFAULT_enabled DEFAULT_interval, simp add: bgAt_def)

text \<open>
  Claim C2, amended. When the count after the increment is still below
  \<open>breakIntervalMinutes\<close> (the break system enabled, the snooze window passed, the user
  active, no break in progress), one tick increments the active minutes by exactly 1, in
  memory and in the store, changes nothing else and sends no reminder.
\<close>

theorem C2_tick_below_interval_increments:
  assumes "\<not> breakSystemDisabled (getSettings (store s))"
    and "\<not> js_lt (Num now) (snoozedUntilMs s)"
    and "\<not> isBreakInProgress s"
    and "breakIntervalMinutes (getSettings (store s)) = Some iv"
    and "activeMinutes s + 1 < iv"
  shows "fst (handleBreakTick now Active tabs s) = setActiveMinutes (activeMinutes s + 1) s
       \<and> activeMinutes (fst (handleBreakTick now Active tabs s)) = activeMinutes s + 1
       \<and> stActiveMinutes (store (fst (handleBreakTick now Active tabs s)))
           = Some (activeMinutes s + 1)
       \<and> snd (handleBreakTick now Active tabs s) = []"
  using assms
  by (simp add: handleBreakTick_def Let_def intervalReached_def setActiveMinutes_def)

theorem C2_scenario_7_of_20:
  "activeMinutes (fst (handleBreakTick 1000 Active [1, 2, 3] (bgAt 7))) = 8
   \<and> stActiveMinutes (store (fst (handleBreakTick 1000 Active [1, 2, 3] (bgAt 7)))) = Some 8
   \<and> snd (handleBreakTick 1000 Active [1, 2, 3] (bgAt 7)) = []"
proof -
  have a: "\<not> breakSystemDisabled (getSettings (store (bgAt 7)))"
    by (simp add: getSettings_bgAt DEFAULT_enabled)
  have b: "\<not> js_lt (Num 1000) (snoozedUntilMs (bgAt 7))"
    by (simp add: bgAt_def)
  have c: "\<not> isBreakInProgress (bgAt 7)"
    by (simp add: bgAt_def)
  have d: "breakIntervalMinutes (getSettings (store (bgAt 7))) = Some 20"
    by (simp add: getSettings_bgAt DEFAULT_interval)
  have e: "activeMinutes (bgAt 7) + 1 < 20"
    by (simp add: bgAt_def)
  have f: "activeMinutes (bgAt 7) + 1 = 8"
    by (simp add: bgAt_def)
  from C2_tick_below_interval_increments [OF a b c d e, of "[1, 2, 3]"] f
  show ?thesis by (simp add: setActiveMinutes_def)
qed

text \<open>
  Claim C3. With the break system enabled and the snooze window passed, a tick that
  observes an idle state other than "active" resets the active minutes to 0, in memory and
  in the store, whatever the count was and whether or not a break is in progress, and
  sends no reminder.
\<close>

theorem C3_tick_when_not_active_resets:
  assumes "\<not> breakSystemDisabled (getSettings (store s))"
    and "\<not> js_lt (Num now) (snoozedUntilMs s)"
    and "state \<noteq> Active"
  shows "fst (handleBreakTick now state tabs s) = setActiveMinutes 0 s
       \<and> activeMinutes (fst (handleBreakTick now state tabs s)) = 0
       \<and> stActiveMinutes (store (fst (handleBreakTick now state tabs s))) = Some 0
       \<and> snd (handleBreakTick now state tabs s) = []"
  using assms
  by (simp add: handleBreakTick_def Let_def setActiveMinutes_def)

theorem C3_scenario_idle_at_13:
  "activeMinutes (fst (handleBreakTick 1000 Idle [1, 2, 3] (bgAt 13))) = 0
   \<and> stActiveMinutes (store (fst (handleBreakTick 1000 Idle [1, 2, 3] (bgAt 13)))) = Some 0
   \<and> snd (handleBreakTick 1000 Idle [1, 2, 3] (bgAt 13)) = []"
proof -
  have a: "\<not> breakSystemDisabled (getSettings (store (bgAt 13)))"
    by (simp add: getSettings_bgAt DEFAULT_enabled)
  have b: "\<not> js_lt (Num 1000) (snoozedUntilMs (bgAt 13))"
    by (simp add: bgAt_def)
  have c: "Idle \<noteq> Active"
    by simp
  from C3_tick_when_not_active_resets [OF a b c, of "[1, 2, 3]"]
  show ?thesis by (simp add: setActiveMinutes_def)
qed

text \<open>
  Claim C4. A \<open>break.snooze\<close> message received at time \<open>now\<close>, with \<open>snoozeMinutes = m\<close> in
  the settings, sets the deadline to \<open>now + m * 60 * 1000\<close> milliseconds, answers with
  success and changes nothing else (the active minutes in particular). Every later tick
  whose time is before that deadline returns the coordinator state as it was and sends
  nothing, whatever the idle state.
\<close>

theorem C4_snoozed_ticks_are_noops:
  assumes "snoozeMinutes (getSettings (store s)) = Some m"
    and "t < now + m * 60 * 1000"
  shows "fst (onMessage now tabs BreakSnooze s) = s\<lparr> snoozedUntilMs := Num (now + m * 60 * 1000) \<rparr>
       \<and> activeMinutes (fst (onMessage now tabs BreakSnooze s)) = activeMinutes s
       \<and> fst (snd (onMessage now tabs BreakSnooze s)) = Success
       \<and> snd (snd (onMessage now tabs BreakSnooze s)) = []
       \<and> handleBreakTick t state tabs' (fst (onMessage now tabs BreakSnooze s))
           = (fst (onMessage now tabs BreakSnooze s), [])"
  using assms
  by (simp add: handleBreakTick_def Let_def snoozeDeadline_def)

theorem C4_scenario_snooze_5_minutes:
  "snoozedUntilMs (fst (onMessage 1000 [1] BreakSnooze (bgAt 19))) = Num 301000
   \<and> activeMinutes (fst (onMessage 1000 [1] BreakSnooze (bgAt 19))) = 19
   \<and> activeMinutes (fst (handleBreakTick 300999 Active [1]
        (fst (onMessage 1000 [1] BreakSnooze (bgAt 19))))) = 19
   \<and> snd (handleBreakTick 300999 Active [1] (fst (onMessage 1000 [1] BreakSnooze (bgAt 19)))) = []"
proof -
  have a: "snoozeMinutes (getSettings (store (bgAt 19))) = Some 5"
    by (simp add: getSettings_bgAt DEFAULT_SETTINGS_def)
  have b: "(300999::real) < 1000 + 5 * 60 * 1000"
    by simp
  have c: "activeMinutes (bgAt 19) = 19"
    by (simp add: bgAt_def)
  have d: "snoozeDeadline 1000 (getSettings (store (bgAt 19))) = Num 301000"
    by (simp add: snoozeDeadline_def a)
  from C4_snoozed_ticks_are_noops [OF a b, of "[1]" Active "[1]"] c
  show ?thesis by (simp add: d)
qed


section \<open>Settings validation and the update paths\<close>

lemma settingsUpdate_store:
  "store (settingsUpdate payload s) = (store s)\<lparr> stSettings := Some payload \<rparr>"
  by (simp add: settingsUpdate_def Let_def ensureBreakTickAlarm_def ensureProximitySampling_def
      ensureOffscreenDocument_def split: option.splits)

lemma settingsUpdate_runtime:
  "activeMinutes (settingsUpdate payload s) = activeMinutes s
   \<and> isBreakInProgress (settingsUpdate payload s) = isBreakInProgress s
   \<and> snoozedUntilMs (settingsUpdate payload s) = snoozedUntilMs s"
  by (simp add: settingsUpdate_def Let_def ensureBreakTickAlarm_def ensureProximitySampling_def
      ensureOffscreenDocument_def split: option.splits)

lemma settingsUpdate_proximity_off:
  "\<not> truthy (proximityEnabled payload) \<Longrightarrow>
   proximityAlarm (settingsUpdate payload s) = None
   \<and> offscreenOpen (settingsUpdate payload s) = offscreenOpen s"
  by (simp add: settingsUpdate_def Let_def ensureBreakTickAlarm_def ensureProximitySampling_def
      getSettings_def split: option.splits)

lemma validate_default: "validateSettings DEFAULTS = []"
  by (simp add: validateSettings_def outside_def DEFAULTS_def sensitivityRule_def
      proximityPeriodSecondsRule_def breakIntervalMinutesRule_def breakDurationSecondsRule_def
      snoozeMinutesRule_def)

text \<open>The options page persists only what passes the validation: a form with a violation
  leaves the store as it was, and a form without one is stored whole.\<close>

lemma saveSettings_stores_valid_complete:
  "stSettings (fst (saveSettings f st)) = Some p \<Longrightarrow> stSettings st \<noteq> Some p \<Longrightarrow>
   p = readForm f \<and> validateSettings p = [] \<and> complete p"
  by (auto simp: saveSettings_def Let_def readForm_def complete_def split: if_splits)

text \<open>
  Claim C5. The claim holds on the options page (above) and fails on the popup: each toggle
  sends \<open>eyeguard.settings.update\<close> with an object of one property, and the background
  listener stores the payload as the whole settings record, unvalidated, and answers with
  success. After the proximity toggle is switched off in the popup, the stored record has
  no other property: it is not a complete settings record.
\<close>

theorem C5_popup_toggle_replaces_settings:
  "stSettings (store (fst (onMessage 0 [] (toggleProximity False) (bgAt 0))))
     = Some (noSettings\<lparr> proximityEnabled := Some False \<rparr>)
   \<and> \<not> complete (noSettings\<lparr> proximityEnabled := Some False \<rparr>)
   \<and> fst (snd (onMessage 0 [] (toggleProximity False) (bgAt 0))) = Success
   \<and> stSettings (store (fst (onMessage 0 [] (toggleBreaks True) (bgAt 0))))
     = Some (noSettings\<lparr> breaksEnabled := Some True \<rparr>)
   \<and> \<not> complete (noSettings\<lparr> breaksEnabled := Some True \<rparr>)"
  by (simp add: toggleProximity_def toggleBreaks_def settingsUpdate_store complete_def
      noSettings_def)

text \<open>
  Claim C6. \<open>validateSettings\<close> returns no violation for the default settings. For each
  of the five numeric fields, a value outside the documented range puts the message that
  names the field into the returned list (which is then not empty). A form that
  \<open>validateSettings\<close> rejects is not applied: \<open>saveSettings\<close> leaves the store as it was
  and sends nothing to the background.
\<close>

theorem C6_validateSettings_rejects_out_of_range:
  "validateSettings DEFAULTS = []
   \<and> (sensitivity st = Some v \<and> (v < 1.1 \<or> v > 2.0)
        \<longrightarrow> ''Sensitivity must be between 1.1 and 2'' \<in> set (validateSettings st))
   \<and> (proximityPeriodSeconds st = Some v \<and> (v < 10 \<or> v > 300)
        \<longrightarrow> ''Proximity sampling must be between 10 and 300 seconds''
              \<in> set (validateSettings st))
   \<and> (breakIntervalMinutes st = Some v \<and> (v < 5 \<or> v > 120)
        \<longrightarrow> ''Break interval must be between 5 and 120 minutes'' \<in> set (validateSettings st))
   \<and> (breakDurationSeconds st = Some v \<and> (v < 10 \<or> v > 300)
        \<longrightarrow> ''Break duration must be between 10 and 300 seconds''
              \<in> set (validateSettings st))
   \<and> (snoozeMinutes st = Some v \<and> (v < 1 \<or> v > 60)
        \<longrightarrow> ''Snooze time must be between 1 and 60 minutes'' \<in> set (validateSettings st))
   \<and> (validateSettings (readForm f) \<noteq> []
        \<longrightarrow> fst (saveSettings f store0) = store0 \<and> fst (snd (saveSettings f store0)) = [])"
  by (simp add: validate_default, simp add: validateSettings_def outside_def sensitivityRule_def
      proximityPeriodSecondsRule_def breakIntervalMinutesRule_def breakDurationSecondsRule_def
      snoozeMinutesRule_def saveSettings_def Let_def)

theorem C6_sensitivity_2_5_is_rejected:
  "''Sensitivity must be between 1.1 and 2'' \<in> set (validateSettings (readForm formSensitivity25))
   \<and> fst (saveSettings formSensitivity25 freshStore) = freshStore
   \<and> fst (snd (saveSettings formSensitivity25 freshStore)) = []"
proof -
  have a: "sensitivity (readForm formSensitivity25) = Some 2.5 \<and> ((2.5::real) < 1.1 \<or> (2.5::real) > 2.0)"
    by (simp add: readForm_def formSensitivity25_def)
  from C6_validateSettings_rejects_out_of_range
         [of "readForm formSensitivity25" "2.5" formSensitivity25 freshStore] a
  have b: "''Sensitivity must be between 1.1 and 2''
             \<in> set (validateSettings (readForm formSensitivity25))"
    by blast
  then have c: "validateSettings (readForm formSensitivity25) \<noteq> []"
    by auto
  from C6_validateSettings_rejects_out_of_range
         [of "readForm formSensitivity25" "2.5" formSensitivity25 freshStore] c
  have "fst (saveSettings formSensitivity25 freshStore) = freshStore
        \<and> fst (snd (saveSettings formSensitivity25 freshStore)) = []"
    by blast
  with b show ?thesis by blast
qed

section \<open>Disabling proximity\<close>

text \<open>
  Claim C10, as written, promises that a settings update which disables proximity closes
  the sampler's offscreen document. The listener only clears the sampling alarm: a document
  that was open stays open.
\<close>

theorem C10_offscreen_document_stays_open:
  "proximityEnabled (DEFAULT_SETTINGS\<lparr> proximityEnabled := Some False \<rparr>) = Some False
   \<and> offscreenOpen (bgAt 3)
   \<and> offscreenOpen (fst (onMessage 0 []
        (SettingsUpdate (DEFAULT_SETTINGS\<lparr> proximityEnabled := Some False \<rparr>)) (bgAt 3)))"
  by (simp add: settingsUpdate_proximity_off, simp add: bgAt_def)

text \<open>
  Claim C10, amended. A settings update whose payload disables proximity stores the
  payload as the settings, leaves no proximity sampling alarm, leaves the offscreen
  document as it was (open if it was open), and answers with success. A status query after
  it returns the unchanged active minutes and break flag and the payload as the settings,
  with \<open>minutesRemaining\<close> computed from the payload; when the payload carries
  \<open>breakIntervalMinutes\<close> that is \<open>max (breakIntervalMinutes - activeMinutes) 0\<close>.
\<close>

theorem C10_disabling_proximity_clears_the_alarm:
  assumes "proximityEnabled payload = Some False"
  shows "proximityAlarm (fst (onMessage now tabs (SettingsUpdate payload) s)) = None
     \<and> offscreenOpen (fst (onMessage now tabs (SettingsUpdate payload) s)) = offscreenOpen s
     \<and> stSettings (store (fst (onMessage now tabs (SettingsUpdate payload) s))) = Some payload
     \<and> fst (snd (onMessage now tabs (SettingsUpdate payload) s)) = Success
     \<and> fst (snd (onMessage now' tabs' RequestStatus
               (fst (onMessage now tabs (SettingsUpdate payload) s))))
        = StatusResponse \<lparr> respActiveMinutes = activeMinutes s,
                           respMinutesRemaining = minutesRemaining payload (activeMinutes s),
                           respIsBreakInProgress = isBreakInProgress s,
                           respSettings = payload \<rparr>
     \<and> (\<forall>iv. breakIntervalMinutes payload = Some iv \<longrightarrow>
           minutesRemaining payload (activeMinutes s) = Num (max (iv - activeMinutes s) 0))"
  using assms
  by (simp add: settingsUpdate_proximity_off settingsUpdate_store settingsUpdate_runtime
      Let_def getSettings_def minutesRemaining_def)

theorem C10_scenario_disable_at_3_minutes:
  "proximityAlarm (fst (onMessage 0 [1]
       (SettingsUpdate (DEFAULT_SETTINGS\<lparr> proximityEnabled := Some False \<rparr>)) (bgAt 3))) = None
   \<and> fst (snd (onMessage 60000 [1] RequestStatus
            (fst (onMessage 0 [1]
               (SettingsUpdate (DEFAULT_SETTINGS\<lparr> proximityEnabled := Some False \<rparr>)) (bgAt 3)))))
      = StatusResponse \<lparr> respActiveMinutes = 3, respMinutesRemaining = Num 17,
                         respIsBreakInProgress = False,
                         respSettings = DEFAULT_SETTINGS\<lparr> proximityEnabled := Some False \<rparr> \<rparr>"
proof -
  have a: "proximityEnabled (DEFAULT_SETTINGS\<lparr> proximityEnabled := Some False \<rparr>) = Some False"
    by simp
  have b: "breakIntervalMinutes (DEFAULT_SETTINGS\<lparr> proximityEnabled := Some False \<rparr>) = Some 20"
    by (simp add: DEFAULT_SETTINGS_def)
  have c: "activeMinutes (bgAt 3) = 3 \<and> isBreakInProgress (bgAt 3) = False"
    by (simp add: bgAt_def)
  from C10_disabling_proximity_clears_the_alarm [OF a, of 0 "[1]" "bgAt 3" 60000 "[1]"] b c
  show ?thesis by simp
qed

section \<open>The face-size estimate\<close>

lemma stride_bound: "k < (L + 15) div 16 \<longleftrightarrow> 16 * k < (L::nat)"
proof -
  have "k < (L + 15) div 16 \<longleftrightarrow> Suc k \<le> (L + 15) div 16"
    by (rule Suc_le_eq [symmetric])
  also have "\<dots> \<longleftrightarrow> Suc k * 16 \<le> L + 15"
    by (rule less_eq_div_iff_mult_less_eq) simp
  also have "\<dots> \<longleftrightarrow> 16 * k < L" by (auto simp: mult.commute)
  finally show ?thesis .
qed

lemma whole_pixel: "4 dvd (L::nat) \<Longrightarrow> 16 * j < L \<Longrightarrow> 16 * j + 2 < L"
  by (elim dvdE) simp

declare estimateLoop.simps [simp del]

lemma estimateLoop_count:
  "k \<le> (length data + 15) div 16 \<Longrightarrow>
   estimateLoop test data (16 * k) sp tp =
     (sp + passes test data k, tp + ((length data + 15) div 16 - k))"
proof (induction "(length data + 15) div 16 - k" arbitrary: k sp tp)
  case 0
  then have "\<not> k < (length data + 15) div 16" by simp
  then have "\<not> 16 * k < length data" by (simp add: stride_bound)
  then show ?case using 0 by (subst estimateLoop.simps) (simp add: passes_def)
next
  case (Suc n)
  then have lt: "k < (length data + 15) div 16" by simp
  then have inb: "16 * k < length data" by (simp add: stride_bound)
  have step: "16 * k + 16 = 16 * Suc k" by simp
  from Suc(2) have n: "n = (length data + 15) div 16 - Suc k" by simp
  from lt have le: "Suc k \<le> (length data + 15) div 16" by simp
  have unroll: "passes test data k =
      (if test (channel data (16 * k)) (channel data (16 * k + 1)) (channel data (16 * k + 2))
       then 1 else 0) + passes test data (Suc k)"
    using lt by (simp add: passes_def upt_conv_Cons)
  show ?case
    apply (subst estimateLoop.simps)
    apply (simp only: inb if_True step)
    apply (subst Suc(1) [OF n le])
    using lt apply (simp add: unroll)
    done
qed

lemma estimateLoop_whole:
  "estimateLoop test data 0 0 0 = (passes test data 0, (length data + 15) div 16)"
  using estimateLoop_count [of 0 data test 0 0] by simp

lemma channels_in_range:
  assumes "4 dvd length data" "j < (length data + 15) div 16"
  shows "16 * j + 2 < length data"
proof -
  from assms(2) have "16 * j < length data" by (simp add: stride_bound)
  with assms(1) show ?thesis by (rule whole_pixel)
qed

lemma passes_skinTone:
  assumes "4 dvd length data"
  shows "passes skinTone data 0 = length (filter skinRule (stridedPixels data))"
proof -
  have "filter (\<lambda>j. skinTone (channel data (16 * j)) (channel data (16 * j + 1))
                                   (channel data (16 * j + 2)))
                     [0 ..< (length data + 15) div 16]
      = filter (skinRule \<circ> (\<lambda>k. (data ! (16 * k), data ! (16 * k + 1), data ! (16 * k + 2))))
           [0 ..< (length data + 15) div 16]"
  proof (rule filter_cong)
    fix j assume "j \<in> set [0 ..< (length data + 15) div 16]"
    then have "16 * j + 2 < length data"
      using channels_in_range [OF assms] by simp
    then show "skinTone (channel data (16 * j)) (channel data (16 * j + 1))
                 (channel data (16 * j + 2))
             = (skinRule \<circ> (\<lambda>k. (data ! (16 * k), data ! (16 * k + 1), data ! (16 * k + 2)))) j"
      by (simp add: channel_def skinRule_def)
  qed simp
  then show ?thesis
    by (simp add: passes_def stridedPixels_def filter_map)
qed

lemma passes_skinToneDirect:
  assumes "4 dvd length data"
  shows "passes skinToneDirect data 0 = length (filter skinRuleDirect (stridedPixels data))"
proof -
  have "filter (\<lambda>j. skinToneDirect (channel data (16 * j)) (channel data (16 * j + 1))
                                   (channel data (16 * j + 2)))
                     [0 ..< (length data + 15) div 16]
      = filter (skinRuleDirect \<circ> (\<lambda>k. (data ! (16 * k), data ! (16 * k + 1), data ! (16 * k + 2))))
           [0 ..< (length data + 15) div 16]"
  proof (rule filter_cong)
    fix j assume "j \<in> set [0 ..< (length data + 15) div 16]"
    then have "16 * j + 2 < length data"
      using channels_in_range [OF assms] by simp
    then show "skinToneDirect (channel data (16 * j)) (channel data (16 * j + 1))
                 (channel data (16 * j + 2))
             = (skinRuleDirect \<circ> (\<lambda>k. (data ! (16 * k), data ! (16 * k + 1), data ! (16 * k + 2)))) j"
      by (simp add: channel_def skinRuleDirect_def)
  qed simp
  then show ?thesis
    by (simp add: passes_def stridedPixels_def filter_map)
qed

lemma strided_length: "length (stridedPixels data) = (length data + 15) div 16"
  by (simp add: stridedPixels_def)

lemma strided_nonempty: "data \<noteq> [] \<Longrightarrow> (length data + 15) div 16 \<noteq> 0"
  by (cases data) simp_all

lemma passes_le: "passes test data 0 \<le> (length data + 15) div 16"
  using length_filter_le [of _ "[0 ..< (length data + 15) div 16]"]
  by (simp add: passes_def)

text \<open>A frame of one pixel: the loop runs once.\<close>

lemma estimate_one_pixel:
  "estimateLoop test [r, g, b, a] 0 0 0 = (if test (Some r) (Some g) (Some b) then 1 else 0, 1)"
  by (simp add: estimateLoop_whole passes_def channel_def)

text \<open>The estimate is a number or, for an empty buffer, \<open>NaN\<close>; never an infinity.\<close>

lemma estimateFaceSize_range:
  "estimateFaceSize data = NaN \<or> (\<exists>f. estimateFaceSize data = Num f)"
  using passes_le [of skinTone data]
  by (simp add: estimateFaceSize_def estimateLoop_whole js_div_def)

text \<open>
  Claim C7, as written, says that every sampler variant uses the rule
  \<open>r>60, g>20, b>10, r>g, r>b, |r-g|>5\<close>. The second sampler file uses other bounds: a
  frame of the one pixel (70, 30, 20), which the rule counts as skin, gets the estimate 1
  from \<open>offscreen.js\<close> and 0 from the second file.
\<close>

theorem C7_second_sampler_uses_other_bounds:
  "skinRule (70, 30, 20)
   \<and> estimateFaceSize [70, 30, 20, 255] = Num 1
   \<and> estimateFaceSizeDirect [70, 30, 20, 255] = Num 0"
  by (simp add: estimateFaceSize_def estimateFaceSizeDirect_def estimate_one_pixel
      js_div_def skinRule_def)

text \<open>
  Claim C7, amended. For a frame buffer that is not empty and holds whole pixels (four
  channels each), \<open>estimateFaceSize\<close> of \<open>offscreen.js\<close> returns the fraction, among the
  pixels of the strided subsample, of those with \<open>r>60, g>20, b>10, r>g, r>b, |r-g|>5\<close>;
  \<open>estimateFaceSize\<close> of the second sampler file returns the fraction of those with
  \<open>r>95, g>40, b>20, r>g, r>b, |r-g|>15\<close>.
\<close>

theorem C7_estimateFaceSize_is_skin_fraction:
  assumes "data \<noteq> []" and "4 dvd length data"
  shows "estimateFaceSize data
           = Num (real (length (filter skinRule (stridedPixels data)))
                  / real (length (stridedPixels data)))
       \<and> estimateFaceSizeDirect data
           = Num (real (length (filter skinRuleDirect (stridedPixels data)))
                  / real (length (stridedPixels data)))"
  using strided_nonempty [OF assms(1)]
  by (simp add: estimateFaceSize_def estimateFaceSizeDirect_def estimateLoop_whole js_div_def
      strided_length passes_skinTone [OF assms(2)] passes_skinToneDirect [OF assms(2)])

theorem C7_one_pixel_frame:
  "estimateFaceSize [200, 100, 50, 255] = Num 1
   \<and> estimateFaceSizeDirect [200, 100, 50, 255] = Num 1"
proof -
  have a: "[200, 100, 50, 255] \<noteq> ([] :: int list)" by simp
  have "length [200, 100, 50, 255 :: int] = 4" by simp
  then have b: "4 dvd length [200, 100, 50, 255 :: int]" by (simp only: dvd_refl)
  from C7_estimateFaceSize_is_skin_fraction [OF a b] show ?thesis
    by (simp add: stridedPixels_def skinRule_def skinRuleDirect_def)
qed


section \<open>Calibration\<close>

lemma sample_while_calibrating:
  assumes "initialized s" "\<not> isProcessing s" "calibrationData s = None"
    and "SAMPLE_INTERVAL \<le> atTime i - lastSampleTime s"
    and "successfulSample i a"
    and "length (accumulated s) + 1 < CALIBRATION_SAMPLES"
  shows "snd (performSample i s) = []
       \<and> initialized (fst (performSample i s))
       \<and> \<not> isProcessing (fst (performSample i s))
       \<and> calibrationData (fst (performSample i s)) = None
       \<and> lastSampleTime (fst (performSample i s)) = atTime i
       \<and> accumulated (fst (performSample i s)) = accumulated s @ [a]"
  using assms
  by (simp add: performSample_def successfulSample_def Let_def js_gt_def performCalibration_def
      accumulated_def)

lemma sample_completing_calibration:
  assumes "initialized s" "\<not> isProcessing s" "calibrationData s = None"
    and "SAMPLE_INTERVAL \<le> atTime i - lastSampleTime s"
    and "successfulSample i a"
    and "length (accumulated s) + 1 = CALIBRATION_SAMPLES"
  shows "calibrationData (fst (performSample i s))
           = Some \<lparr> baselineFaceSize = foldl (+) 0 (accumulated s @ [a]) / 5, timestamp = clock i \<rparr>
       \<and> snd (performSample i s)
           = [StorageSetCalibration
                \<lparr> baselineFaceSize = foldl (+) 0 (accumulated s @ [a]) / 5, timestamp = clock i \<rparr>]"
  using assms
  by (simp add: performSample_def successfulSample_def Let_def js_gt_def performCalibration_def
      accumulated_def CALIBRATION_SAMPLES_def)

lemma sample_keeps_calibration:
  "calibrationData s = Some c \<Longrightarrow> calibrationData (fst (performSample i s)) = Some c"
  by (simp add: performSample_def Let_def split: jsnum.splits)

lemma performSamples_Cons:
  "fst (performSamples (i # is) s) = fst (performSamples is (fst (performSample i s)))
   \<and> snd (performSamples (i # is) s)
       = snd (performSample i s) @ snd (performSamples is (fst (performSample i s)))"
  by (simp split: prod.splits)

lemma onePixel_sample: "successfulSample (sampleAt t (onePixel [200, 100, 50, 255])) 1"
  by (simp add: successfulSample_def sampleAt_def onePixel_def estimateFaceSize_def
      estimate_one_pixel js_div_def)

lemma farFrame_sample: "successfulSample (sampleAt t farFrame) (1 / 2)"
  by (simp add: successfulSample_def sampleAt_def farFrame_def estimateFaceSize_def
      estimateLoop_whole passes_def channel_def js_div_def upt_conv_Cons)

text \<open>
  Claim C8. A sampler that is initialised, idle, without a calibration and with an empty
  accumulator takes five successful samples with the positive values \<open>a1\<close> .. \<open>a5\<close>, each at
  least the sample interval after the one before. After the fifth its baseline is the
  arithmetic mean \<open>(a1 + a2 + a3 + a4 + a5) / 5\<close> with the time read at the fifth sample as
  timestamp; the only message sent during the five samples is the request to store that
  calibration, which the background writes to the store as it is. A sixth sample, whatever
  its frame and time, leaves the calibration as it is.
\<close>

theorem C8_five_samples_set_the_baseline:
  assumes s: "initialized s" "\<not> isProcessing s" "calibrationData s = None" "accumulated s = []"
    and a: "successfulSample i1 a1" "successfulSample i2 a2" "successfulSample i3 a3"
           "successfulSample i4 a4" "successfulSample i5 a5"
    and t: "SAMPLE_INTERVAL \<le> atTime i1 - lastSampleTime s"
           "SAMPLE_INTERVAL \<le> atTime i2 - atTime i1"
           "SAMPLE_INTERVAL \<le> atTime i3 - atTime i2"
           "SAMPLE_INTERVAL \<le> atTime i4 - atTime i3"
           "SAMPLE_INTERVAL \<le> atTime i5 - atTime i4"
  shows "calibrationData (fst (performSamples [i1, i2, i3, i4, i5] s))
           = Some \<lparr> baselineFaceSize = (a1 + a2 + a3 + a4 + a5) / 5, timestamp = clock i5 \<rparr>
       \<and> snd (performSamples [i1, i2, i3, i4, i5] s)
           = [StorageSetCalibration
                \<lparr> baselineFaceSize = (a1 + a2 + a3 + a4 + a5) / 5, timestamp = clock i5 \<rparr>]
       \<and> stCalibrationData (store (fst (onMessage now tabs
             (StorageSetCalibration
                \<lparr> baselineFaceSize = (a1 + a2 + a3 + a4 + a5) / 5, timestamp = clock i5 \<rparr>) b)))
           = Some \<lparr> baselineFaceSize = (a1 + a2 + a3 + a4 + a5) / 5, timestamp = clock i5 \<rparr>
       \<and> calibrationData (fst (performSample i6 (fst (performSamples [i1, i2, i3, i4, i5] s))))
           = Some \<lparr> baselineFaceSize = (a1 + a2 + a3 + a4 + a5) / 5, timestamp = clock i5 \<rparr>"
proof -
  let ?s1 = "fst (performSample i1 s)"
  let ?s2 = "fst (performSample i2 ?s1)"
  let ?s3 = "fst (performSample i3 ?s2)"
  let ?s4 = "fst (performSample i4 ?s3)"
  let ?s5 = "fst (performSample i5 ?s4)"
  let ?c = "\<lparr> baselineFaceSize = (a1 + a2 + a3 + a4 + a5) / 5, timestamp = clock i5 \<rparr>"
  have r1: "snd (performSample i1 s) = [] \<and> initialized ?s1 \<and> \<not> isProcessing ?s1
      \<and> calibrationData ?s1 = None \<and> lastSampleTime ?s1 = atTime i1 \<and> accumulated ?s1 = [a1]"
    using sample_while_calibrating [OF s(1) s(2) s(3) t(1) a(1)] s(4)
    by (simp add: CALIBRATION_SAMPLES_def)
  have r2: "snd (performSample i2 ?s1) = [] \<and> initialized ?s2 \<and> \<not> isProcessing ?s2
      \<and> calibrationData ?s2 = None \<and> lastSampleTime ?s2 = atTime i2 \<and> accumulated ?s2 = [a1, a2]"
    using sample_while_calibrating [of ?s1 i2 a2] r1 t(2) a(2)
    by (simp add: CALIBRATION_SAMPLES_def)
  have r3: "snd (performSample i3 ?s2) = [] \<and> initialized ?s3 \<and> \<not> isProcessing ?s3
      \<and> calibrationData ?s3 = None \<and> lastSampleTime ?s3 = atTime i3
      \<and> accumulated ?s3 = [a1, a2, a3]"
    using sample_while_calibrating [of ?s2 i3 a3] r2 t(3) a(3)
    by (simp add: CALIBRATION_SAMPLES_def)
  have r4: "snd (performSample i4 ?s3) = [] \<and> initialized ?s4 \<and> \<not> isProcessing ?s4
      \<and> calibrationData ?s4 = None \<and> lastSampleTime ?s4 = atTime i4
      \<and> accumulated ?s4 = [a1, a2, a3, a4]"
    using sample_while_calibrating [of ?s3 i4 a4] r3 t(4) a(4)
    by (simp add: CALIBRATION_SAMPLES_def)
  have r5: "calibrationData ?s5 = Some ?c \<and> snd (performSample i5 ?s4) = [StorageSetCalibration ?c]"
    using sample_completing_calibration [of ?s4 i5 a5] r4 t(5) a(5)
    by (simp add: CALIBRATION_SAMPLES_def)
  have run: "fst (performSamples [i1, i2, i3, i4, i5] s) = ?s5
      \<and> snd (performSamples [i1, i2, i3, i4, i5] s)
          = snd (performSample i1 s) @ snd (performSample i2 ?s1) @ snd (performSample i3 ?s2)
            @ snd (performSample i4 ?s3) @ snd (performSample i5 ?s4)"
    by (simp only: performSamples_Cons performSamples.simps(1) fst_conv snd_conv append_Nil2 simp_thms)
  from r5 have keep: "calibrationData (fst (performSample i6 ?s5)) = Some ?c"
    by (simp add: sample_keeps_calibration)
  from run r1 r2 r3 r4 r5 keep show ?thesis
    by simp
qed

theorem C8_scenario_mean_of_five:
  "calibrationData (fst (performSamples
       [sampleAt 2000 (onePixel [200, 100, 50, 255]), sampleAt 4000 (onePixel [200, 100, 50, 255]),
        sampleAt 6000 (onePixel [200, 100, 50, 255]), sampleAt 8000 (onePixel [200, 100, 50, 255]),
        sampleAt 10000 farFrame] samplerReady))
     = Some \<lparr> baselineFaceSize = 9 / 10, timestamp = 10001 \<rparr>
   \<and> calibrationData (fst (performSample (sampleAt 12000 farFrame) (fst (performSamples
       [sampleAt 2000 (onePixel [200, 100, 50, 255]), sampleAt 4000 (onePixel [200, 100, 50, 255]),
        sampleAt 6000 (onePixel [200, 100, 50, 255]), sampleAt 8000 (onePixel [200, 100, 50, 255]),
        sampleAt 10000 farFrame] samplerReady))))
     = Some \<lparr> baselineFaceSize = 9 / 10, timestamp = 10001 \<rparr>"
proof -
  have s: "initialized samplerReady" "\<not> isProcessing samplerReady"
    "calibrationData samplerReady = None" "accumulated samplerReady = []"
    by (simp_all add: samplerReady_def accumulated_def)
  have t: "SAMPLE_INTERVAL \<le> atTime (sampleAt 2000 (onePixel [200, 100, 50, 255]))
                                 - lastSampleTime samplerReady"
    "SAMPLE_INTERVAL \<le> atTime (sampleAt 4000 (onePixel [200, 100, 50, 255]))
                        - atTime (sampleAt 2000 (onePixel [200, 100, 50, 255]))"
    "SAMPLE_INTERVAL \<le> atTime (sampleAt 6000 (onePixel [200, 100, 50, 255]))
                        - atTime (sampleAt 4000 (onePixel [200, 100, 50, 255]))"
    "SAMPLE_INTERVAL \<le> atTime (sampleAt 8000 (onePixel [200, 100, 50, 255]))
                        - atTime (sampleAt 6000 (onePixel [200, 100, 50, 255]))"
    "SAMPLE_INTERVAL \<le> atTime (sampleAt 10000 farFrame)
                        - atTime (sampleAt 8000 (onePixel [200, 100, 50, 255]))"
    by (simp_all add: SAMPLE_INTERVAL_def sampleAt_def samplerReady_def)
  have c: "clock (sampleAt 10000 farFrame) = 10001"
    by (simp add: sampleAt_def)
  have m: "((1::real) + 1 + 1 + 1 + 1 / 2) / 5 = 9 / 10"
    by simp
  from C8_five_samples_set_the_baseline [OF s onePixel_sample onePixel_sample onePixel_sample onePixel_sample
      farFrame_sample t, of 0 "[]" "bgAt 0" "sampleAt 12000 farFrame"]
  show ?thesis
    by (simp only: c m)
qed

section \<open>The proximity check\<close>

text \<open>In \<open>offscreen.js\<close> a sample taken with a calibration sends one warning exactly when
  the ratio of the estimate to the baseline is strictly above
  \<open>PROXIMITY_THRESHOLD * sensitivity\<close>; nothing is remembered between samples, so every
  sample above the threshold warns again.\<close>

lemma calibrated_sample_warns_iff:
  assumes "initialized s" "\<not> isProcessing s"
    and "SAMPLE_INTERVAL \<le> atTime i - lastSampleTime s"
    and "successfulSample i f"
    and "calibrationData s = Some c" "baselineFaceSize c \<noteq> 0"
  shows "snd (performSample i s)
       = (if f / baselineFaceSize c > PROXIMITY_THRESHOLD * getSensitivity (settingsReply i)
          then [ProximityWarning] else [])"
  using assms
  by (simp add: performSample_def successfulSample_def Let_def js_gt_def checkProximity_def
      js_div_def)

lemma checkProximityDirect_False: "\<not> checkProximityDirect stored f s"
  by (simp add: checkProximityDirect_def getSensitivityDirect_def Let_def js_gt_def
      split: option.splits)

text \<open>
  Claim C9 holds for \<open>offscreen.js\<close> (above) and fails in the second sampler file, where
  the threshold is computed from the promise that \<open>getSensitivity\<close> returns and is
  \<open>NaN\<close>: \<open>checkProximity\<close> is false for every estimate, baseline and sensitivity, and no
  sample ever sends a proximity warning.
\<close>

theorem C9_second_sampler_never_warns:
  "\<not> checkProximityDirect stored f s
   \<and> ProximityWarning \<notin> set (snd (performSampleDirect i s))"
  by (simp add: performSampleDirect_def Let_def checkProximityDirect_False performCalibration_def
      split: jsnum.splits)

text \<open>With a baseline of 0.2, the default sensitivity 1.5 and a frame whose estimate is 1,
  the ratio 5 is above the threshold 1.05: \<open>offscreen.js\<close> sends the warning and the second
  file sends none.\<close>

theorem C9_ratio_5_is_not_flagged:
  "(1 / 0.2 :: real) > 0.7 * 1.5
   \<and> snd (performSample (sampleAt 5000 (onePixel [200, 100, 50, 255])) samplerCalibrated)
       = [ProximityWarning]
   \<and> ProximityWarning
       \<notin> set (snd (performSampleDirect (sampleAt 5000 (onePixel [200, 100, 50, 255]))
                     samplerCalibrated))"
proof -
  have a: "snd (performSample (sampleAt 5000 (onePixel [200, 100, 50, 255])) samplerCalibrated)
       = [ProximityWarning]"
    by (simp add: performSample_def Let_def checkProximity_def getSensitivity_def sampleAt_def
        onePixel_def samplerCalibrated_def estimateFaceSize_def estimate_one_pixel js_div_def
        js_gt_def SAMPLE_INTERVAL_def PROXIMITY_THRESHOLD_def DEFAULT_SETTINGS_def)
  from C9_second_sampler_never_warns
         [of "settingsReply (sampleAt 5000 (onePixel [200, 100, 50, 255]))" 1 samplerCalibrated
             "sampleAt 5000 (onePixel [200, 100, 50, 255])"] a
  show ?thesis by simp
qed

end
